theory Spec2Isabelle
  imports Main "HOL-Library.Word"
begin

unbundle bit_operations_syntax

section \<open>Machine types\<close>

text \<open>
  The engine works on 32-bit register words (\<open>u32\<close>) and 64-bit GPU virtual addresses
  (\<open>GPUVAddr\<close>). \<open>std::size_t\<close> is 64 bits wide on the supported targets. Host pointers
  (\<open>u8*\<close>) and cache addresses (\<open>CacheAddr\<close>) are 64-bit values as well; a null pointer
  is \<open>None\<close>.
\<close>

type_synonym u32 = "32 word"
type_synonym u64 = "64 word"
type_synonym GPUVAddr = u64
type_synonym HostPtr = u64
type_synonym CacheAddr = u64

section \<open>The register file as HandleCopy reads it\<close>

text \<open>
  Modelled from the spec: the declaration of \<open>MaxwellDMA::Regs\<close> (maxwell_dma.h) is not
  part of the translated source file, which only names its fields. The records below hold
  exactly the fields that maxwell_dma.cpp reads, grouped as the spec's data model
  (section 3) groups them. A bit field of n bits is an \<open>n word\<close>; the enumerations are
  scoped enums over \<open>u32\<close> stored in two-bit fields, so they are raw values with named
  constants.
\<close>

type_synonym CopyMode = "2 word"
type_synonym QueryMode = "2 word"
type_synonym QueryIntr = "2 word"

definition CopyMode_Unk2 :: CopyMode where
  "CopyMode_Unk2 = 2"

definition QueryMode_None :: QueryMode where
  "QueryMode_None = 0"

definition QueryIntr_None :: QueryIntr where
  "QueryIntr_None = 0"

record Exec =
  copy_mode :: CopyMode
  query_mode :: QueryMode
  query_intr :: QueryIntr
  is_src_linear :: "1 word"
  is_dst_linear :: "1 word"
  enable_2d :: "1 word"
  enable_swizzle :: "1 word"

record AddressReg =
  address_high :: u32
  address_low :: u32

record Parameters =
  block_height :: "4 word"
  size_x :: u32
  size_y :: u32
  size_z :: u32
  pos_x :: "16 word"
  pos_y :: "16 word"

record Regs =
  exec :: Exec
  src_address :: AddressReg
  dst_address :: AddressReg
  src_pitch :: u32
  dst_pitch :: u32
  x_count :: u32
  y_count :: u32
  dst_params :: Parameters
  src_params :: Parameters

text \<open>
  Modelled from the spec: the accessors \<open>Address()\<close> and \<open>BlockHeight()\<close> belong to the
  same missing declaration. An address is split across two words, high word first; the
  block height is two to the power of the stored logarithm.
\<close>

definition Address :: "AddressReg \<Rightarrow> GPUVAddr" where
  "Address a = push_bit 32 (ucast (address_high a)) OR ucast (address_low a)"

definition BlockHeight :: "Parameters \<Rightarrow> u32" where
  "BlockHeight p = push_bit (unat (block_height p)) 1"

section \<open>Collaborators and what a call leaves behind\<close>

text \<open>
  The memory manager is consulted through \<open>GetPointer\<close>, which yields a null pointer for an
  address that is not mapped. Every other collaborator call is an effect; the model records
  the calls, with their arguments, in the order in which they are made.
\<close>

record MemoryManager =
  GetPointer :: "GPUVAddr \<Rightarrow> HostPtr option"

datatype Event =
    LOG_WARNING string
  | LOG_ERROR string
  | OnMemoryWrite
  | CopyBlock GPUVAddr GPUVAddr u64
  | FlushRegion CacheAddr u64
  | InvalidateRegion CacheAddr u64
  | UnswizzleSubrect u32 u32 u32 u32 u32 HostPtr HostPtr u32 u32 u32
  | SwizzleSubrect u32 u32 u32 u32 u32 HostPtr HostPtr u32

text \<open>
  Modelled from the spec: the macros \<open>ASSERT\<close>, \<open>ASSERT_MSG\<close> and \<open>UNREACHABLE_MSG\<close>
  (common/assert.h) are not part of the translated source file. Following sections 7 and 9
  of the spec, a failed assertion and a reached \<open>UNREACHABLE_MSG\<close> are fatal: the call is
  aborted at that point and nothing after it runs. \<open>ASSERT\<close> and \<open>UNREACHABLE_MSG\<close> are
  the combinators below; the one \<open>ASSERT_MSG\<close> of the source is written out in
  \<open>CallMethod\<close>, where the abort also has to leave the register array as it was.
\<close>

text \<open>
  A \<open>u32\<close> division by zero is undefined behaviour in the source language and traps on
  the target; HOL's \<open>div\<close> would return 0 instead. The model makes the division a step
  that aborts the call on a zero divisor.
\<close>

datatype Failure =
    AssertionFailed
  | AssertionFailedMsg string
  | Unreachable string
  | DivisionByZero

datatype Outcome = Returned | Aborted Failure

type_synonym Run = "Event list \<times> Outcome"

definition return :: Run where
  "return = ([], Returned)"

definition emit :: "Event \<Rightarrow> Run \<Rightarrow> Run" where
  "emit e k = (e # fst k, snd k)"

definition emits :: "Event list \<Rightarrow> Run \<Rightarrow> Run" where
  "emits es k = (es @ fst k, snd k)"

definition ASSERT :: "bool \<Rightarrow> Run \<Rightarrow> Run" where
  "ASSERT c k = (if c then k else ([], Aborted AssertionFailed))"

definition UNREACHABLE_MSG :: "string \<Rightarrow> Run" where
  "UNREACHABLE_MSG msg = ([], Aborted (Unreachable msg))"

definition udiv :: "u32 \<Rightarrow> u32 \<Rightarrow> (u32 \<Rightarrow> Run) \<Rightarrow> Run" where
  "udiv a b k = (if b = 0 then ([], Aborted DivisionByZero) else k (a div b))"

text \<open>
  Modelled from the spec: \<open>ToCacheAddr\<close> is declared outside the translated file. The
  spec's render cache flushes and invalidates at the resolved pointer itself, so the cache
  address of a host pointer is that pointer.
\<close>

definition ToCacheAddr :: "HostPtr \<Rightarrow> CacheAddr" where
  "ToCacheAddr host_ptr = host_ptr"

section \<open>HandleCopy\<close>

text \<open>
  The line-by-line loop of the linear to linear path. \<open>line\<close> is a \<open>u32\<close>; the products
  \<open>line * src_pitch\<close> and \<open>line * dst_pitch\<close> are 32-bit products, widened to 64 bits
  when they are added to the addresses.
\<close>

function copy_lines :: "Regs \<Rightarrow> GPUVAddr \<Rightarrow> GPUVAddr \<Rightarrow> u32 \<Rightarrow> Event list" where
  "copy_lines regs source dest line =
     (if line < y_count regs then
        (let source_line = source + ucast (line * src_pitch regs);
             dest_line = dest + ucast (line * dst_pitch regs)
         in CopyBlock dest_line source_line (ucast (x_count regs))
              # copy_lines regs source dest (line + 1))
      else [])"
  by pat_completeness auto
termination
proof (relation "measure (\<lambda>(regs, source, dest, line). unat (y_count regs) - unat line)")
  show "wf (measure (\<lambda>(regs, source, dest, line). unat (y_count regs) - unat line))"
    by simp
next
  fix regs :: Regs and source dest :: GPUVAddr and line :: u32
  assume lt: "line < y_count regs"
  then have "unat line < unat (y_count regs)"
    by (simp add: word_less_nat_alt)
  moreover from lt have "unat (line + 1) = unat line + 1"
    by unat_arith
  ultimately show "((regs, source, dest, line + 1), (regs, source, dest, line))
      \<in> measure (\<lambda>(regs, source, dest, line). unat (y_count regs) - unat line)"
    by simp
qed

declare copy_lines.simps [simp del]

definition FlushAndInvalidate :: "HostPtr \<Rightarrow> HostPtr \<Rightarrow> u32 \<Rightarrow> u64 \<Rightarrow> Run \<Rightarrow> Run" where
  "FlushAndInvalidate source_ptr dst_ptr src_size dst_size k =
     emit (FlushRegion (ToCacheAddr source_ptr) (ucast src_size))
       (emit (InvalidateRegion (ToCacheAddr dst_ptr) dst_size) k)"

definition HandleCopy :: "MemoryManager \<Rightarrow> Regs \<Rightarrow> Run" where
  "HandleCopy memory_manager regs =
     emit (LOG_WARNING ''Requested a DMA copy'')
     (let source = Address (src_address regs);
          dest = Address (dst_address regs)
      in
      ASSERT (enable_swizzle (exec regs) = 0)
     (ASSERT (query_mode (exec regs) = QueryMode_None)
     (ASSERT (query_intr (exec regs) = QueryIntr_None)
     (ASSERT (copy_mode (exec regs) = CopyMode_Unk2)
     (ASSERT (pos_x (dst_params regs) = 0)
     (ASSERT (pos_y (dst_params regs) = 0)
     (if is_dst_linear (exec regs) = 0 \<and> is_src_linear (exec regs) = 0 then
        UNREACHABLE_MSG ''Tiled->Tiled DMA transfers are not yet implemented''
      else
        emit OnMemoryWrite
       (if is_dst_linear (exec regs) \<noteq> 0 \<and> is_src_linear (exec regs) \<noteq> 0 then
          (if enable_2d (exec regs) = 0 then
             emit (CopyBlock dest source (ucast (x_count regs))) return
           else
             emits (copy_lines regs source dest 0) return)
        else
          ASSERT (enable_2d (exec regs) = 1)
         (let copy_size = (ucast (x_count regs * y_count regs) :: u64);
              source_ptr = GetPointer memory_manager source;
              dst_ptr = GetPointer memory_manager dest
          in
          case source_ptr of
            None \<Rightarrow> emit (LOG_ERROR ''source_ptr is invalid'') return
          | Some sp \<Rightarrow>
         (case dst_ptr of
            None \<Rightarrow> emit (LOG_ERROR ''dst_ptr is invalid'') return
          | Some dp \<Rightarrow>
            if is_dst_linear (exec regs) \<noteq> 0 \<and> is_src_linear (exec regs) = 0 then
              ASSERT (size_z (src_params regs) = 1)
             (udiv (src_pitch regs) (size_x (src_params regs)) (\<lambda>src_bytes_per_pixel.
              FlushAndInvalidate sp dp
                (src_pitch regs * size_y (src_params regs))
                (copy_size * ucast src_bytes_per_pixel)
             (emit (UnswizzleSubrect (x_count regs) (y_count regs) (dst_pitch regs)
                      (size_x (src_params regs)) src_bytes_per_pixel sp dp
                      (BlockHeight (src_params regs))
                      (ucast (pos_x (src_params regs)))
                      (ucast (pos_y (src_params regs))))
                return)))
            else
              ASSERT (size_z (dst_params regs) = 1)
             (ASSERT (src_pitch regs = x_count regs)
             (udiv (src_pitch regs) (x_count regs) (\<lambda>src_bpp.
              FlushAndInvalidate sp dp
                (src_pitch regs * y_count regs)
                (ucast (size_x (dst_params regs) * size_y (dst_params regs) * src_bpp))
             (emit (SwizzleSubrect (x_count regs) (y_count regs) (src_pitch regs)
                      (size_x (dst_params regs)) src_bpp dp sp
                      (BlockHeight (dst_params regs)))
                return))))))))))))))"

text \<open>
  The six assertions at the head of \<open>HandleCopy\<close>, as one predicate on the registers.
\<close>

definition head_assertions_hold :: "Regs \<Rightarrow> bool" where
  "head_assertions_hold regs =
     (enable_swizzle (exec regs) = 0 \<and>
      query_mode (exec regs) = QueryMode_None \<and>
      query_intr (exec regs) = QueryIntr_None \<and>
      copy_mode (exec regs) = CopyMode_Unk2 \<and>
      pos_x (dst_params regs) = 0 \<and>
      pos_y (dst_params regs) = 0)"

text \<open>
  Classes of collaborator calls: the ones that move bytes, the layout transforms among
  them, and the render cache's flush and invalidate.
\<close>

fun moves_bytes :: "Event \<Rightarrow> bool" where
  "moves_bytes (CopyBlock dest src n) = True"
| "moves_bytes (UnswizzleSubrect w h p sw bpp sp dp bh ox oy) = True"
| "moves_bytes (SwizzleSubrect w h p sw bpp dp sp bh) = True"
| "moves_bytes e = False"

fun is_transform :: "Event \<Rightarrow> bool" where
  "is_transform (UnswizzleSubrect w h p sw bpp sp dp bh ox oy) = True"
| "is_transform (SwizzleSubrect w h p sw bpp dp sp bh) = True"
| "is_transform e = False"

fun is_cache_action :: "Event \<Rightarrow> bool" where
  "is_cache_action (FlushRegion a n) = True"
| "is_cache_action (InvalidateRegion a n) = True"
| "is_cache_action e = False"

text \<open>
  The bytes per pixel handed to the swizzle transform, for a call of it.
\<close>

fun swizzle_bpp :: "Event \<Rightarrow> u32 option" where
  "swizzle_bpp (SwizzleSubrect w h p sw bpp dp sp bh) = Some bpp"
| "swizzle_bpp e = None"

section \<open>CallMethod\<close>

text \<open>
  The register file is a union of the named fields and \<open>reg_array\<close>, an array of
  \<open>NUM_REGS\<close> words. \<open>CallMethod\<close> writes through the array and \<open>HandleCopy\<close> reads
  through the fields. The declaration that fixes \<open>NUM_REGS\<close>, the word index of \<open>exec\<close>
  (\<open>MAXWELLDMA_REG_INDEX(exec)\<close>) and the place of every field is outside the translated
  file, so the model takes it as a parameter: a \<open>Layout\<close> gives the register count, the
  index of \<open>exec\<close>, and the fields as a function of the array. The array is a function
  from indices to words; only indices below \<open>NUM_REGS\<close> are ever written. The field
  \<open>method\<close> of a method call is spelled \<open>method'\<close> here.
\<close>

record MethodCall =
  method' :: u32
  argument :: u32

record Layout =
  NUM_REGS :: nat
  exec_index :: nat
  view :: "(nat \<Rightarrow> u32) \<Rightarrow> Regs"

definition CallMethod ::
  "Layout \<Rightarrow> MemoryManager \<Rightarrow> (nat \<Rightarrow> u32) \<Rightarrow> MethodCall \<Rightarrow> (nat \<Rightarrow> u32) \<times> Run" where
  "CallMethod layout memory_manager reg_array method_call =
     (if \<not> unat (method' method_call) < NUM_REGS layout then
        (reg_array, [], Aborted (AssertionFailedMsg
           ''Invalid MaxwellDMA register, increase the size of the Regs structure''))
      else
        (let reg_array' = reg_array (unat (method' method_call) := argument method_call)
         in if unat (method' method_call) = exec_index layout then
              (reg_array', HandleCopy memory_manager (view layout reg_array'))
            else (reg_array', return)))"

text \<open>
  The dispatcher calls \<open>CallMethod\<close> once for every register write of the command stream,
  in order. An aborted call ends the run; a call that returns leaves the engine ready for
  the next write.
\<close>

fun CallMethods ::
  "Layout \<Rightarrow> MemoryManager \<Rightarrow> (nat \<Rightarrow> u32) \<Rightarrow> MethodCall list \<Rightarrow> (nat \<Rightarrow> u32) \<times> Run" where
  "CallMethods layout memory_manager reg_array [] = (reg_array, return)"
| "CallMethods layout memory_manager reg_array (method_call # rest) =
     (case CallMethod layout memory_manager reg_array method_call of
        (reg_array', t, Returned) \<Rightarrow>
          (case CallMethods layout memory_manager reg_array' rest of
             (reg_array'', k) \<Rightarrow> (reg_array'', emits t k))
      | (reg_array', t, Aborted f) \<Rightarrow> (reg_array', t, Aborted f))"

text \<open>
  The store of a single write, to say what a sequence of writes leaves in the array.
\<close>

definition store :: "MethodCall \<Rightarrow> (nat \<Rightarrow> u32) \<Rightarrow> (nat \<Rightarrow> u32)" where
  "store method_call reg_array =
     reg_array (unat (method' method_call) := argument method_call)"

text \<open>
  Modelled from the spec: the register declaration itself is missing from the translated
  source. The layout below lists the fields of section 3 of the spec at the word indices
  and bit positions of the hardware's register file. It serves to run \<open>CallMethod\<close> on
  concrete register writes; no property of \<open>HandleCopy\<close> depends on it.
\<close>

definition view_Exec :: "u32 \<Rightarrow> Exec" where
  "view_Exec w =
     \<lparr>copy_mode = ucast w,
      query_mode = ucast (drop_bit 3 w),
      query_intr = ucast (drop_bit 5 w),
      is_src_linear = ucast (drop_bit 7 w),
      is_dst_linear = ucast (drop_bit 8 w),
      enable_2d = ucast (drop_bit 9 w),
      enable_swizzle = ucast (drop_bit 10 w)\<rparr>"

definition view_Parameters :: "(nat \<Rightarrow> u32) \<Rightarrow> nat \<Rightarrow> Parameters" where
  "view_Parameters reg_array base =
     \<lparr>block_height = ucast (drop_bit 4 (reg_array base)),
      size_x = reg_array (base + 1),
      size_y = reg_array (base + 2),
      size_z = reg_array (base + 3),
      pos_x = ucast (reg_array (base + 5)),
      pos_y = ucast (drop_bit 16 (reg_array (base + 5)))\<rparr>"

definition view_Regs :: "(nat \<Rightarrow> u32) \<Rightarrow> Regs" where
  "view_Regs reg_array =
     \<lparr>exec = view_Exec (reg_array 0xC0),
      src_address = \<lparr>address_high = reg_array 0x100, address_low = reg_array 0x101\<rparr>,
      dst_address = \<lparr>address_high = reg_array 0x102, address_low = reg_array 0x103\<rparr>,
      src_pitch = reg_array 0x104,
      dst_pitch = reg_array 0x105,
      x_count = reg_array 0x106,
      y_count = reg_array 0x107,
      dst_params = view_Parameters reg_array 0x1C3,
      src_params = view_Parameters reg_array 0x1CA\<rparr>"

definition Regs_layout :: Layout where
  "Regs_layout = \<lparr>NUM_REGS = 0x1D6, exec_index = 0xC0, view = view_Regs\<rparr>"

text \<open>
  The condition under which a call gets as far as \<open>FlushAndInvalidate\<close>: the head
  assertions hold, exactly one side is linear, \<open>enable_2d\<close> is set, both pointers resolve
  (to \<open>sp\<close> and \<open>dp\<close>), and the assertions and the division of the branch taken go through.
\<close>

definition reaches_FlushAndInvalidate ::
  "MemoryManager \<Rightarrow> Regs \<Rightarrow> HostPtr \<Rightarrow> HostPtr \<Rightarrow> bool" where
  "reaches_FlushAndInvalidate memory_manager regs sp dp =
     (head_assertions_hold regs \<and>
      (is_dst_linear (exec regs) = 0) \<noteq> (is_src_linear (exec regs) = 0) \<and>
      enable_2d (exec regs) = 1 \<and>
      GetPointer memory_manager (Address (src_address regs)) = Some sp \<and>
      GetPointer memory_manager (Address (dst_address regs)) = Some dp \<and>
      (if is_src_linear (exec regs) = 0 then
         size_z (src_params regs) = 1 \<and> size_x (src_params regs) \<noteq> 0
       else
         size_z (dst_params regs) = 1 \<and> src_pitch regs = x_count regs \<and>
         x_count regs \<noteq> 0))"

section \<open>Concrete requests\<close>

text \<open>
  A linear to linear request of four rows of 64 bytes, a tiled 128 by 128 surface of four
  bytes per pixel, and variations of them, used to run the engine on concrete inputs.
\<close>

definition linear_exec :: Exec where
  "linear_exec =
     \<lparr>copy_mode = CopyMode_Unk2, query_mode = QueryMode_None, query_intr = QueryIntr_None,
      is_src_linear = 1, is_dst_linear = 1, enable_2d = 1, enable_swizzle = 0\<rparr>"

definition surface :: Parameters where
  "surface = \<lparr>block_height = 4, size_x = 128, size_y = 128, size_z = 1, pos_x = 0, pos_y = 0\<rparr>"

definition linear_request :: Regs where
  "linear_request =
     \<lparr>exec = linear_exec,
      src_address = \<lparr>address_high = 0, address_low = 0x1000\<rparr>,
      dst_address = \<lparr>address_high = 0, address_low = 0x2000\<rparr>,
      src_pitch = 64, dst_pitch = 64, x_count = 64, y_count = 4,
      dst_params = surface, src_params = surface\<rparr>"

definition deswizzle_request :: Regs where
  "deswizzle_request =
     linear_request
       \<lparr>exec := linear_exec\<lparr>is_src_linear := 0\<rparr>,
        src_pitch := 512, dst_pitch := 512, x_count := 128, y_count := 128\<rparr>"

definition swizzle_request :: Regs where
  "swizzle_request =
     linear_request
       \<lparr>exec := linear_exec\<lparr>is_dst_linear := 0\<rparr>,
        src_pitch := 128, x_count := 128, y_count := 128\<rparr>"

definition tiled_request :: Regs where
  "tiled_request =
     linear_request
       \<lparr>exec := linear_exec\<lparr>is_src_linear := 0, is_dst_linear := 0\<rparr>\<rparr>"

text \<open>
  Requests whose 32-bit products overflow: a row offset of \<open>2 ^ 32\<close> and more, and
  surfaces of \<open>2 ^ 32\<close> bytes and more.
\<close>

definition wide_pitch_request :: Regs where
  "wide_pitch_request =
     linear_request\<lparr>src_pitch := 0x80000000, dst_pitch := 0xC0000000, y_count := 3\<rparr>"

definition huge_deswizzle_request :: Regs where
  "huge_deswizzle_request =
     deswizzle_request
       \<lparr>src_pitch := 0x10000, x_count := 0x10000, y_count := 0x10000,
        src_params := surface\<lparr>size_x := 0x100, size_y := 0x10000\<rparr>\<rparr>"

definition huge_swizzle_request :: Regs where
  "huge_swizzle_request =
     swizzle_request\<lparr>dst_params := surface\<lparr>size_x := 0x10000, size_y := 0x10000\<rparr>\<rparr>"

definition mapped :: MemoryManager where
  "mapped = \<lparr>GetPointer = (\<lambda>a. if a < 0x10000 then Some (a + 0x7F0000000000) else None)\<rparr>"

definition unmapped :: MemoryManager where
  "unmapped = \<lparr>GetPointer = (\<lambda>a. None)\<rparr>"

definition zero_regs :: "nat \<Rightarrow> u32" where
  "zero_regs = (\<lambda>i. 0)"

text \<open>
  A register array that holds the tiled surface as source, ready for a write to \<open>exec\<close>.
\<close>

definition deswizzle_regs :: "nat \<Rightarrow> u32" where
  "deswizzle_regs =
     zero_regs (0x101 := 0x1000, 0x103 := 0x2000, 0x104 := 512, 0x105 := 512,
                0x106 := 128, 0x107 := 128,
                0x1CA := 0x40, 0x1CB := 128, 0x1CC := 128, 0x1CD := 1)"

text \<open>
  The register writes that fill the zeroed array to that state.
\<close>

definition deswizzle_writes :: "MethodCall list" where
  "deswizzle_writes =
     [\<lparr>method' = 0x101, argument = 0x1000\<rparr>, \<lparr>method' = 0x103, argument = 0x2000\<rparr>,
      \<lparr>method' = 0x104, argument = 512\<rparr>, \<lparr>method' = 0x105, argument = 512\<rparr>,
      \<lparr>method' = 0x106, argument = 128\<rparr>, \<lparr>method' = 0x107, argument = 128\<rparr>,
      \<lparr>method' = 0x1CA, argument = 0x40\<rparr>, \<lparr>method' = 0x1CB, argument = 128\<rparr>,
      \<lparr>method' = 0x1CC, argument = 128\<rparr>, \<lparr>method' = 0x1CD, argument = 1\<rparr>]"

section \<open>Properties\<close>

lemmas run_defs =
  emit_def emits_def ASSERT_def return_def UNREACHABLE_MSG_def udiv_def
  FlushAndInvalidate_def

lemmas example_defs =
  linear_request_def deswizzle_request_def swizzle_request_def tiled_request_def
  linear_exec_def surface_def mapped_def unmapped_def
  CopyMode_Unk2_def QueryMode_None_def QueryIntr_None_def

lemmas overflow_defs =
  wide_pitch_request_def huge_deswizzle_request_def huge_swizzle_request_def

lemmas layout_defs =
  Regs_layout_def view_Regs_def view_Exec_def view_Parameters_def zero_regs_def

subsection \<open>The line-by-line loop\<close>

text \<open>
  The loop started at \<open>line\<close> issues one \<open>CopyBlock\<close> for every row from \<open>line\<close> up to
  \<open>y_count\<close>, in increasing order.
\<close>

lemma copy_lines_map:
  "copy_lines regs s d line =
     map (\<lambda>i. CopyBlock (d + ucast (word_of_nat i * dst_pitch regs))
                          (s + ucast (word_of_nat i * src_pitch regs))
                          (ucast (x_count regs)))
         [unat line ..< unat (y_count regs)]"
proof (induction regs s d line rule: copy_lines.induct)
  case (1 regs source dest line)
  show ?case
  proof (cases "line < y_count regs")
    case True
    then have lt: "unat line < unat (y_count regs)"
      by (simp add: word_less_nat_alt)
    from True have suc: "unat (line + 1) = Suc (unat line)"
      by unat_arith
    have "copy_lines regs source dest line =
        CopyBlock (dest + ucast (line * dst_pitch regs))
          (source + ucast (line * src_pitch regs)) (ucast (x_count regs))
        # copy_lines regs source dest (line + 1)"
      using True by (subst copy_lines.simps) simp
    also have "copy_lines regs source dest (line + 1) =
        map (\<lambda>i. CopyBlock (dest + ucast (word_of_nat i * dst_pitch regs))
                             (source + ucast (word_of_nat i * src_pitch regs))
                             (ucast (x_count regs)))
            [Suc (unat line) ..< unat (y_count regs)]"
      using 1 True suc by simp
    finally show ?thesis
      using lt by (simp add: upt_conv_Cons)
  next
    case False
    then have "unat (y_count regs) \<le> unat line"
      by (simp add: word_less_nat_alt)
    with False show ?thesis
      by (subst copy_lines.simps) simp
  qed
qed

lemma copy_lines_only_CopyBlock:
  "e \<in> set (copy_lines regs s d line) \<Longrightarrow> \<exists>a b n. e = CopyBlock a b n"
  by (auto simp: copy_lines_map)

lemma count_OnMemoryWrite_copy_lines:
  "count_list (copy_lines regs s d line) OnMemoryWrite = 0"
  by (auto simp: count_list_0_iff dest: copy_lines_only_CopyBlock)

lemma cache_actions_copy_lines:
  "filter is_cache_action (copy_lines regs s d line) = []"
  by (auto simp: filter_empty_conv dest: copy_lines_only_CopyBlock)

lemma transforms_copy_lines:
  "filter is_transform (copy_lines regs s d line) = []"
  by (auto simp: filter_empty_conv dest: copy_lines_only_CopyBlock)

text \<open>
  A row offset is the 32-bit product \<open>line * pitch\<close> of the source. As long as the
  product of the two numbers stays below \<open>2 ^ 32\<close> it is that number; beyond, it wraps
  around before it is widened.
\<close>

lemma row_offset_exact:
  fixes line pitch :: u32
  assumes "unat line * unat pitch < 2 ^ 32"
  shows "unat (ucast (line * pitch) :: u64) = unat line * unat pitch"
proof -
  have "unat (line * pitch) = unat line * unat pitch"
    using assms by (simp add: unat_word_ariths)
  moreover have "unat (ucast (line * pitch) :: u64) = unat (line * pitch)"
    by (simp add: unsigned_ucast_eq take_bit_nat_eq_self_iff)
      (use unsigned_less [of "line * pitch", where 'a = nat] in simp)
  ultimately show ?thesis by simp
qed

text \<open>
  The same in the other direction: a 32-bit product that does not overflow, widened to 64
  bits, is the product of the numbers; and a natural number below \<open>2 ^ 64\<close> is read
  back unchanged from its 64-bit word.
\<close>

lemma ucast_product_exact:
  fixes a b :: u32
  assumes "unat a * unat b < 2 ^ 32"
  shows "(ucast (a * b) :: u64) = word_of_nat (unat a * unat b)"
proof -
  have "unat (a * b) = unat a * unat b"
    using assms by (simp add: unat_word_ariths)
  then have "(word_of_nat (unat a * unat b) :: u64) = word_of_nat (unat (a * b))"
    by simp
  then show ?thesis by simp
qed


lemma unat_word_of_nat_u64:
  "n < 2 ^ 64 \<Longrightarrow> unat (word_of_nat n :: u64) = n"
  by (simp add: unat_of_nat)




text \<open>
  A row address is a 64-bit sum. As long as the sum of the numbers stays below \<open>2 ^ 64\<close>
  it is that number.
\<close>

lemma row_address_exact:
  fixes a :: u64
  assumes "unat a + n < 2 ^ 64"
  shows "unat (a + word_of_nat n) = unat a + n"
proof -
  from assms have "n < 2 ^ 64"
    by simp
  then have "unat (word_of_nat n :: u64) = n"
    by (rule unat_word_of_nat_u64)
  with assms show ?thesis
    by (simp add: unat_word_ariths)
qed

subsection \<open>Rejected configurations\<close>

text \<open>
  Claim C1. A request that fails one of the assertions of \<open>HandleCopy\<close> is answered by an
  assertion failure, the unsupported-feature failure, and has no memory effect. The
  failing conditions are: \<open>enable_swizzle\<close> set, \<open>query_mode\<close> or \<open>query_intr\<close> other than
  \<open>None\<close>, \<open>copy_mode\<close> other than \<open>Unk2\<close>, a destination offset other than (0, 0), or
  exactly one linear side together with \<open>enable_2d\<close> cleared. In each case the call is
  aborted with \<open>AssertionFailed\<close>; nothing was recorded but the log line and, when the six
  head assertions held and only the \<open>enable_2d\<close> assertion failed, the \<open>OnMemoryWrite\<close>
  notification; no call that moves bytes and no flush or invalidate was made.
\<close>

theorem HandleCopy_unsupported_no_memory_effect:
  assumes "enable_swizzle (exec regs) \<noteq> 0 \<or>
     query_mode (exec regs) \<noteq> QueryMode_None \<or>
     query_intr (exec regs) \<noteq> QueryIntr_None \<or>
     copy_mode (exec regs) \<noteq> CopyMode_Unk2 \<or>
     pos_x (dst_params regs) \<noteq> 0 \<or>
     pos_y (dst_params regs) \<noteq> 0 \<or>
     (is_src_linear (exec regs) = 0) \<noteq> (is_dst_linear (exec regs) = 0) \<and>
     enable_2d (exec regs) = 0"
  shows "snd (HandleCopy mm regs) = Aborted AssertionFailed \<and>
     fst (HandleCopy mm regs) =
       (if head_assertions_hold regs
        then [LOG_WARNING ''Requested a DMA copy'', OnMemoryWrite]
        else [LOG_WARNING ''Requested a DMA copy'']) \<and>
     filter moves_bytes (fst (HandleCopy mm regs)) = [] \<and>
     filter is_cache_action (fst (HandleCopy mm regs)) = []"
  using assms by (auto simp add: HandleCopy_def head_assertions_hold_def run_defs Let_def)

theorem HandleCopy_unsupported_no_memory_effect_witness:
  "enable_swizzle (exec (linear_request\<lparr>exec := linear_exec\<lparr>enable_swizzle := 1\<rparr>\<rparr>)) \<noteq> 0 \<and>
   HandleCopy mapped (linear_request\<lparr>exec := linear_exec\<lparr>enable_swizzle := 1\<rparr>\<rparr>) =
     ([LOG_WARNING ''Requested a DMA copy''], Aborted AssertionFailed) \<and>
   is_src_linear (exec (deswizzle_request\<lparr>exec := linear_exec\<lparr>is_src_linear := 0, enable_2d := 0\<rparr>\<rparr>)) = 0 \<and>
   is_dst_linear (exec (deswizzle_request\<lparr>exec := linear_exec\<lparr>is_src_linear := 0, enable_2d := 0\<rparr>\<rparr>)) \<noteq> 0 \<and>
   enable_2d (exec (deswizzle_request\<lparr>exec := linear_exec\<lparr>is_src_linear := 0, enable_2d := 0\<rparr>\<rparr>)) = 0 \<and>
   HandleCopy mapped (deswizzle_request\<lparr>exec := linear_exec\<lparr>is_src_linear := 0, enable_2d := 0\<rparr>\<rparr>) =
     ([LOG_WARNING ''Requested a DMA copy'', OnMemoryWrite], Aborted AssertionFailed)"
proof -
  let ?a = "linear_request\<lparr>exec := linear_exec\<lparr>enable_swizzle := 1\<rparr>\<rparr>"
  let ?b = "deswizzle_request\<lparr>exec := linear_exec\<lparr>is_src_linear := 0, enable_2d := 0\<rparr>\<rparr>"
  have a: "enable_swizzle (exec ?a) \<noteq> 0"
    by (simp add: example_defs)
  have na: "\<not> head_assertions_hold ?a"
    by (simp add: head_assertions_hold_def example_defs)
  have b: "is_src_linear (exec ?b) = 0" "is_dst_linear (exec ?b) \<noteq> 0" "enable_2d (exec ?b) = 0"
    by (simp_all add: example_defs)
  have hb: "head_assertions_hold ?b"
    by (simp add: head_assertions_hold_def example_defs)
  from a HandleCopy_unsupported_no_memory_effect [of ?a mapped] na
  have ra: "HandleCopy mapped ?a =
      ([LOG_WARNING ''Requested a DMA copy''], Aborted AssertionFailed)"
    by (simp add: prod_eq_iff)
  from b HandleCopy_unsupported_no_memory_effect [of ?b mapped] hb
  have rb: "HandleCopy mapped ?b =
      ([LOG_WARNING ''Requested a DMA copy'', OnMemoryWrite], Aborted AssertionFailed)"
    by (simp add: prod_eq_iff)
  from a ra b rb show ?thesis by blast
qed

subsection \<open>Linear to linear\<close>





text \<open>
  Claim C7. For a request that passes the head assertions, with both sides linear and
  \<open>enable_2d\<close> cleared, \<open>HandleCopy\<close> notifies \<open>OnMemoryWrite\<close>, issues one
  \<open>CopyBlock\<close> of \<open>x_count\<close> elements from the source address to the destination
  address, and returns. Nothing else is called: no layout transform, no flush, no
  invalidate.
\<close>

theorem HandleCopy_linear_1d_block:
  assumes "head_assertions_hold regs"
    and "is_src_linear (exec regs) \<noteq> 0" and "is_dst_linear (exec regs) \<noteq> 0"
    and "enable_2d (exec regs) = 0"
  shows "HandleCopy mm regs =
    ([LOG_WARNING ''Requested a DMA copy'', OnMemoryWrite,
      CopyBlock (Address (dst_address regs)) (Address (src_address regs))
        (ucast (x_count regs))],
     Returned) \<and>
    filter is_transform (fst (HandleCopy mm regs)) = [] \<and>
    filter is_cache_action (fst (HandleCopy mm regs)) = []"
  using assms by (simp add: HandleCopy_def head_assertions_hold_def run_defs Let_def)

theorem HandleCopy_linear_1d_block_witness:
  "head_assertions_hold (linear_request\<lparr>exec := linear_exec\<lparr>enable_2d := 0\<rparr>\<rparr>) \<and>
   is_src_linear (exec (linear_request\<lparr>exec := linear_exec\<lparr>enable_2d := 0\<rparr>\<rparr>)) \<noteq> 0 \<and>
   is_dst_linear (exec (linear_request\<lparr>exec := linear_exec\<lparr>enable_2d := 0\<rparr>\<rparr>)) \<noteq> 0 \<and>
   enable_2d (exec (linear_request\<lparr>exec := linear_exec\<lparr>enable_2d := 0\<rparr>\<rparr>)) = 0 \<and>
   HandleCopy mapped (linear_request\<lparr>exec := linear_exec\<lparr>enable_2d := 0\<rparr>\<rparr>) =
     ([LOG_WARNING ''Requested a DMA copy'', OnMemoryWrite, CopyBlock 0x2000 0x1000 64],
      Returned)"
proof -
  let ?r = "linear_request\<lparr>exec := linear_exec\<lparr>enable_2d := 0\<rparr>\<rparr>"
  have h: "head_assertions_hold ?r"
    by (simp add: head_assertions_hold_def example_defs)
  have s: "is_src_linear (exec ?r) \<noteq> 0"
    and d: "is_dst_linear (exec ?r) \<noteq> 0"
    and e: "enable_2d (exec ?r) = 0"
    by (simp_all add: example_defs)
  have "HandleCopy mapped ?r =
     ([LOG_WARNING ''Requested a DMA copy'', OnMemoryWrite, CopyBlock 0x2000 0x1000 64],
      Returned)"
    unfolding conjunct1 [OF HandleCopy_linear_1d_block [OF h s d e]]
    by (simp add: example_defs Address_def)
  with h s d e show ?thesis by blast
qed

subsection \<open>The memory-written notification\<close>

text \<open>
  Claim C3. For a request that passes the head assertions and is not tiled to tiled,
  \<open>OnMemoryWrite\<close> is notified exactly once in the call, and only the log line comes
  before it: it precedes every copy, flush, invalidate and transform. This holds for every
  memory manager, hence also when a pointer fails to resolve afterwards.
\<close>

theorem HandleCopy_OnMemoryWrite_once_first:
  assumes "head_assertions_hold regs"
    and "\<not> (is_dst_linear (exec regs) = 0 \<and> is_src_linear (exec regs) = 0)"
  shows "take 2 (fst (HandleCopy mm regs)) =
       [LOG_WARNING ''Requested a DMA copy'', OnMemoryWrite] \<and>
     count_list (fst (HandleCopy mm regs)) OnMemoryWrite = 1"
  using assms
  by (auto simp add: HandleCopy_def head_assertions_hold_def run_defs Let_def
      count_OnMemoryWrite_copy_lines split: option.splits)

theorem HandleCopy_OnMemoryWrite_once_first_witness:
  "head_assertions_hold deswizzle_request \<and>
   \<not> (is_dst_linear (exec deswizzle_request) = 0 \<and>
      is_src_linear (exec deswizzle_request) = 0) \<and>
   GetPointer unmapped (Address (src_address deswizzle_request)) = None \<and>
   take 2 (fst (HandleCopy unmapped deswizzle_request)) =
     [LOG_WARNING ''Requested a DMA copy'', OnMemoryWrite] \<and>
   count_list (fst (HandleCopy unmapped deswizzle_request)) OnMemoryWrite = 1 \<and>
   take 2 (fst (HandleCopy mapped deswizzle_request)) =
     [LOG_WARNING ''Requested a DMA copy'', OnMemoryWrite] \<and>
   count_list (fst (HandleCopy mapped deswizzle_request)) OnMemoryWrite = 1"
proof -
  have h: "head_assertions_hold deswizzle_request"
    by (simp add: head_assertions_hold_def example_defs)
  have m: "\<not> (is_dst_linear (exec deswizzle_request) = 0 \<and>
      is_src_linear (exec deswizzle_request) = 0)"
    by (simp add: example_defs)
  have p: "GetPointer unmapped (Address (src_address deswizzle_request)) = None"
    by (simp add: example_defs)
  from h m p HandleCopy_OnMemoryWrite_once_first [OF h m, of unmapped]
    HandleCopy_OnMemoryWrite_once_first [OF h m, of mapped]
  show ?thesis by blast
qed

subsection \<open>Exactly one tiled side\<close>

text \<open>
  Claim C4. In a call that gets as far as \<open>FlushAndInvalidate\<close>, the cache actions are
  exactly two, in this order: \<open>FlushRegion\<close> on the source pointer, then
  \<open>InvalidateRegion\<close> on the destination pointer.
\<close>

theorem HandleCopy_flush_before_invalidate:
  assumes "reaches_FlushAndInvalidate mm regs sp dp"
  shows "filter is_cache_action (fst (HandleCopy mm regs)) =
     [FlushRegion (ToCacheAddr sp)
        (ucast (if is_src_linear (exec regs) = 0
                then src_pitch regs * size_y (src_params regs)
                else src_pitch regs * y_count regs)),
      InvalidateRegion (ToCacheAddr dp)
        (if is_src_linear (exec regs) = 0
         then ucast (x_count regs * y_count regs) *
              ucast (src_pitch regs div size_x (src_params regs))
         else ucast (size_x (dst_params regs) * size_y (dst_params regs) *
                     (src_pitch regs div x_count regs)))]"
  using assms
  by (auto simp add: HandleCopy_def reaches_FlushAndInvalidate_def head_assertions_hold_def
      run_defs Let_def)

theorem HandleCopy_flush_before_invalidate_witness:
  "reaches_FlushAndInvalidate mapped deswizzle_request 0x7F0000001000 0x7F0000002000 \<and>
   filter is_cache_action (fst (HandleCopy mapped deswizzle_request)) =
     [FlushRegion 0x7F0000001000 0x10000, InvalidateRegion 0x7F0000002000 0x10000] \<and>
   reaches_FlushAndInvalidate mapped swizzle_request 0x7F0000001000 0x7F0000002000 \<and>
   filter is_cache_action (fst (HandleCopy mapped swizzle_request)) =
     [FlushRegion 0x7F0000001000 0x4000, InvalidateRegion 0x7F0000002000 0x4000]"
proof -
  have a: "reaches_FlushAndInvalidate mapped deswizzle_request 0x7F0000001000 0x7F0000002000"
    by (simp add: reaches_FlushAndInvalidate_def head_assertions_hold_def example_defs
        Address_def)
  have b: "reaches_FlushAndInvalidate mapped swizzle_request 0x7F0000001000 0x7F0000002000"
    by (simp add: reaches_FlushAndInvalidate_def head_assertions_hold_def example_defs
        Address_def)
  have ra: "filter is_cache_action (fst (HandleCopy mapped deswizzle_request)) =
     [FlushRegion 0x7F0000001000 0x10000, InvalidateRegion 0x7F0000002000 0x10000]"
    unfolding HandleCopy_flush_before_invalidate [OF a]
    by (simp add: example_defs ToCacheAddr_def)
  have rb: "filter is_cache_action (fst (HandleCopy mapped swizzle_request)) =
     [FlushRegion 0x7F0000001000 0x4000, InvalidateRegion 0x7F0000002000 0x4000]"
    unfolding HandleCopy_flush_before_invalidate [OF b]
    by (simp add: example_defs ToCacheAddr_def)
  from a ra b rb show ?thesis by blast
qed

text \<open>
  In every other call the render cache is not touched at all.
\<close>

lemma no_cache_action_otherwise:
  assumes "\<And>sp dp. \<not> reaches_FlushAndInvalidate mm regs sp dp"
  shows "filter is_cache_action (fst (HandleCopy mm regs)) = []"
  using assms
  by (auto simp add: HandleCopy_def reaches_FlushAndInvalidate_def head_assertions_hold_def
      run_defs Let_def cache_actions_copy_lines split: option.splits if_splits) blast+

text \<open>
  Claim C5. When a request with exactly one linear side has come to the pointer
  resolution (head assertions passed, \<open>enable_2d\<close> set) and the source or the destination
  pointer does not resolve, \<open>HandleCopy\<close> logs the error and returns: after the
  \<open>OnMemoryWrite\<close> notification nothing is flushed, invalidated, transformed or copied.
  The return is a normal one, so the engine stays usable: when the copy was triggered by
  a write to \<open>exec\<close>, the dispatcher's run goes on with the register writes that follow,
  on the register array that holds the value just written.
\<close>

theorem HandleCopy_unresolved_pointer_recoverable:
  assumes "head_assertions_hold regs"
    and "(is_dst_linear (exec regs) = 0) \<noteq> (is_src_linear (exec regs) = 0)"
    and "enable_2d (exec regs) = 1"
    and "GetPointer mm (Address (src_address regs)) = None \<or>
         GetPointer mm (Address (dst_address regs)) = None"
  shows "HandleCopy mm regs =
      ([LOG_WARNING ''Requested a DMA copy'', OnMemoryWrite,
        LOG_ERROR (if GetPointer mm (Address (src_address regs)) = None
                   then ''source_ptr is invalid'' else ''dst_ptr is invalid'')],
       Returned) \<and>
     (unat (method' mc) = exec_index layout \<and> exec_index layout < NUM_REGS layout \<and>
      view layout (reg_array (exec_index layout := argument mc)) = regs \<longrightarrow>
      CallMethods layout mm reg_array (mc # rest) =
        (case CallMethods layout mm (reg_array (exec_index layout := argument mc)) rest of
           (reg_array', k) \<Rightarrow>
             (reg_array',
              emits [LOG_WARNING ''Requested a DMA copy'', OnMemoryWrite,
                     LOG_ERROR (if GetPointer mm (Address (src_address regs)) = None
                                then ''source_ptr is invalid''
                                else ''dst_ptr is invalid'')] k)))"
proof -
  have run: "HandleCopy mm regs =
      ([LOG_WARNING ''Requested a DMA copy'', OnMemoryWrite,
        LOG_ERROR (if GetPointer mm (Address (src_address regs)) = None
                   then ''source_ptr is invalid'' else ''dst_ptr is invalid'')],
       Returned)"
    using assms
    by (auto simp add: HandleCopy_def head_assertions_hold_def run_defs Let_def
        split: option.splits)
  then show ?thesis
    by (simp add: CallMethod_def Let_def)
qed

theorem HandleCopy_unresolved_pointer_recoverable_witness:
  "head_assertions_hold (view_Regs (deswizzle_regs (0xC0 := 0x302))) \<and>
   is_dst_linear (exec (view_Regs (deswizzle_regs (0xC0 := 0x302)))) \<noteq> 0 \<and>
   is_src_linear (exec (view_Regs (deswizzle_regs (0xC0 := 0x302)))) = 0 \<and>
   enable_2d (exec (view_Regs (deswizzle_regs (0xC0 := 0x302)))) = 1 \<and>
   GetPointer unmapped (Address (src_address (view_Regs (deswizzle_regs (0xC0 := 0x302))))) = None \<and>
   HandleCopy unmapped (view_Regs (deswizzle_regs (0xC0 := 0x302))) =
     ([LOG_WARNING ''Requested a DMA copy'', OnMemoryWrite,
       LOG_ERROR ''source_ptr is invalid''], Returned) \<and>
   CallMethods Regs_layout unmapped deswizzle_regs
       [\<lparr>method' = 0xC0, argument = 0x302\<rparr>, \<lparr>method' = 0x106, argument = 64\<rparr>] =
     (deswizzle_regs (0xC0 := 0x302, 0x106 := 64),
      [LOG_WARNING ''Requested a DMA copy'', OnMemoryWrite,
       LOG_ERROR ''source_ptr is invalid''], Returned)"
proof -
  let ?regs = "view_Regs (deswizzle_regs (0xC0 := 0x302))"
  let ?mc = "\<lparr>method' = 0xC0, argument = 0x302\<rparr>"
  have h: "head_assertions_hold ?regs"
    by (simp add: head_assertions_hold_def layout_defs deswizzle_regs_def example_defs)
  have d: "is_dst_linear (exec ?regs) \<noteq> 0" and s: "is_src_linear (exec ?regs) = 0"
    and e: "enable_2d (exec ?regs) = 1"
    by (simp_all add: layout_defs deswizzle_regs_def)
  from d s have m: "(is_dst_linear (exec ?regs) = 0) \<noteq> (is_src_linear (exec ?regs) = 0)"
    by simp
  have p: "GetPointer unmapped (Address (src_address ?regs)) = None"
    by (simp add: example_defs)
  then have p': "GetPointer unmapped (Address (src_address ?regs)) = None \<or>
      GetPointer unmapped (Address (dst_address ?regs)) = None"
    by simp
  note inst = HandleCopy_unresolved_pointer_recoverable [OF h m e p',
      of ?mc Regs_layout deswizzle_regs "[\<lparr>method' = 0x106, argument = 64\<rparr>]"]
  have next_call: "CallMethods Regs_layout unmapped (deswizzle_regs (0xC0 := 0x302))
       [\<lparr>method' = 0x106, argument = 64\<rparr>] =
     (deswizzle_regs (0xC0 := 0x302, 0x106 := 64), [], Returned)"
    by (simp add: CallMethod_def Regs_layout_def run_defs)
  have idx: "deswizzle_regs (exec_index Regs_layout := argument ?mc) = deswizzle_regs (0xC0 := 0x302)"
    by (simp add: Regs_layout_def)
  have run: "HandleCopy unmapped ?regs =
     ([LOG_WARNING ''Requested a DMA copy'', OnMemoryWrite,
       LOG_ERROR ''source_ptr is invalid''], Returned)"
    using inst p by simp
  have calls: "CallMethods Regs_layout unmapped deswizzle_regs
       [?mc, \<lparr>method' = 0x106, argument = 64\<rparr>] =
     (deswizzle_regs (0xC0 := 0x302, 0x106 := 64),
      [LOG_WARNING ''Requested a DMA copy'', OnMemoryWrite,
       LOG_ERROR ''source_ptr is invalid''], Returned)"
  proof -
    have "unat (method' ?mc) = exec_index Regs_layout \<and>
        exec_index Regs_layout < NUM_REGS Regs_layout \<and>
        view Regs_layout (deswizzle_regs (exec_index Regs_layout := argument ?mc)) = ?regs"
      by (simp add: Regs_layout_def)
    with inst have "CallMethods Regs_layout unmapped deswizzle_regs
       [?mc, \<lparr>method' = 0x106, argument = 64\<rparr>] =
        (case CallMethods Regs_layout unmapped
                (deswizzle_regs (exec_index Regs_layout := argument ?mc))
                [\<lparr>method' = 0x106, argument = 64\<rparr>] of
           (reg_array', k) \<Rightarrow>
             (reg_array',
              emits [LOG_WARNING ''Requested a DMA copy'', OnMemoryWrite,
                     LOG_ERROR (if GetPointer unmapped (Address (src_address ?regs)) = None
                                then ''source_ptr is invalid''
                                else ''dst_ptr is invalid'')] k))"
      by blast
    then show ?thesis
      unfolding idx next_call by (simp only: p if_True prod.case emits_def fst_conv snd_conv append_Nil2 refl simp_thms)
  qed
  from h d s e p run calls show ?thesis by blast
qed





text \<open>
  In no run at all is \<open>SwizzleSubrect\<close> called with bytes per pixel other than 1.
\<close>

lemma swizzle_always_bpp_one:
  "list_all (\<lambda>e. swizzle_bpp e = None \<or> swizzle_bpp e = Some 1) (fst (HandleCopy mm regs))"
proof -
  have lines: "list_all (\<lambda>e. swizzle_bpp e = None \<or> swizzle_bpp e = Some 1)
      (copy_lines regs s d line)" for s d line
    by (auto simp: list_all_iff dest: copy_lines_only_CopyBlock)
  show ?thesis
    by (auto simp add: HandleCopy_def run_defs Let_def lines div_word_self
        split: option.splits)
qed

text \<open>
  From a linear source to a tiled destination, with the head assertions passed,
  \<open>enable_2d\<close> set, both pointers resolved, destination depth 1 and \<open>x_count\<close> other
  than zero, the assertion \<open>src_pitch = x_count\<close> decides the run.
\<close>

lemma HandleCopy_swizzle_run:
  assumes "head_assertions_hold regs"
    and "is_src_linear (exec regs) \<noteq> 0" and "is_dst_linear (exec regs) = 0"
    and "enable_2d (exec regs) = 1"
    and "GetPointer mm (Address (src_address regs)) = Some source_ptr"
    and "GetPointer mm (Address (dst_address regs)) = Some dst_ptr"
    and "size_z (dst_params regs) = 1"
    and "x_count regs \<noteq> 0"
  shows "HandleCopy mm regs =
     (if src_pitch regs = x_count regs then
        ([LOG_WARNING ''Requested a DMA copy'', OnMemoryWrite,
          FlushRegion (ToCacheAddr source_ptr) (ucast (src_pitch regs * y_count regs)),
          InvalidateRegion (ToCacheAddr dst_ptr)
            (ucast (size_x (dst_params regs) * size_y (dst_params regs))),
          SwizzleSubrect (x_count regs) (y_count regs) (src_pitch regs)
            (size_x (dst_params regs)) 1 dst_ptr source_ptr
            (BlockHeight (dst_params regs))],
         Returned)
      else ([LOG_WARNING ''Requested a DMA copy'', OnMemoryWrite], Aborted AssertionFailed))"
  using assms
  by (simp add: HandleCopy_def head_assertions_hold_def run_defs Let_def div_word_self)

text \<open>
  Claim C10, as stated, has exactly \<open>size_x * size_y\<close> bytes invalidated. The source
  takes the product in 32 bits: for a destination of \<open>0x10000\<close> by \<open>0x10000\<close> the claim
  has \<open>2 ^ 32\<close> bytes and the source invalidates 0 bytes.
\<close>

theorem HandleCopy_swizzle_bpp_one_counterexample:
  "head_assertions_hold huge_swizzle_request \<and>
   is_src_linear (exec huge_swizzle_request) = 1 \<and>
   is_dst_linear (exec huge_swizzle_request) = 0 \<and>
   enable_2d (exec huge_swizzle_request) = 1 \<and>
   GetPointer mapped (Address (src_address huge_swizzle_request)) = Some 0x7F0000001000 \<and>
   GetPointer mapped (Address (dst_address huge_swizzle_request)) = Some 0x7F0000002000 \<and>
   size_z (dst_params huge_swizzle_request) = 1 \<and>
   src_pitch huge_swizzle_request = x_count huge_swizzle_request \<and>
   x_count huge_swizzle_request = 128 \<and>
   unat (size_x (dst_params huge_swizzle_request)) *
     unat (size_y (dst_params huge_swizzle_request)) = 2 ^ 32 \<and>
   HandleCopy mapped huge_swizzle_request =
     ([LOG_WARNING ''Requested a DMA copy'', OnMemoryWrite,
       FlushRegion 0x7F0000001000 0x4000,
       InvalidateRegion 0x7F0000002000 0,
       SwizzleSubrect 128 128 128 0x10000 1 0x7F0000002000 0x7F0000001000 16],
      Returned)"
  by (simp add: HandleCopy_def head_assertions_hold_def run_defs example_defs overflow_defs
      Address_def ToCacheAddr_def BlockHeight_def)

text \<open>
  Claim C10, amended. On the path from a linear source to a tiled destination the
  precondition \<open>src_pitch = x_count\<close> is enforced: a request that violates it is aborted
  by the assertion before anything is flushed, invalidated or swizzled. Under it, for
  \<open>x_count\<close> other than zero, the bytes per pixel \<open>src_pitch / x_count\<close> are 1 and the one
  transform of the run is \<open>SwizzleSubrect\<close> with one byte per pixel; no run whatsoever
  calls it with another value. When moreover the product \<open>size_x * size_y\<close> of the
  destination is below \<open>2 ^ 32\<close>, the invalidated range is exactly \<open>size_x * size_y\<close>
  bytes.
\<close>

theorem HandleCopy_swizzle_bpp_one:
  assumes "head_assertions_hold regs"
    and "is_src_linear (exec regs) \<noteq> 0" and "is_dst_linear (exec regs) = 0"
    and "enable_2d (exec regs) = 1"
    and "GetPointer mm (Address (src_address regs)) = Some source_ptr"
    and "GetPointer mm (Address (dst_address regs)) = Some dst_ptr"
    and "size_z (dst_params regs) = 1"
    and "x_count regs \<noteq> 0"
  shows "list_all (\<lambda>e. swizzle_bpp e = None \<or> swizzle_bpp e = Some 1)
       (fst (HandleCopy mm regs)) \<and>
     (src_pitch regs \<noteq> x_count regs \<longrightarrow>
        HandleCopy mm regs =
          ([LOG_WARNING ''Requested a DMA copy'', OnMemoryWrite], Aborted AssertionFailed)) \<and>
     (src_pitch regs = x_count regs \<longrightarrow>
        src_pitch regs div x_count regs = 1 \<and>
        snd (HandleCopy mm regs) = Returned \<and>
        filter is_transform (fst (HandleCopy mm regs)) =
          [SwizzleSubrect (x_count regs) (y_count regs) (src_pitch regs)
             (size_x (dst_params regs)) 1 dst_ptr source_ptr
             (BlockHeight (dst_params regs))]) \<and>
     (src_pitch regs = x_count regs \<and>
      unat (size_x (dst_params regs)) * unat (size_y (dst_params regs)) < 2 ^ 32 \<longrightarrow>
        HandleCopy mm regs =
          ([LOG_WARNING ''Requested a DMA copy'', OnMemoryWrite,
            FlushRegion (ToCacheAddr source_ptr) (ucast (src_pitch regs * y_count regs)),
            InvalidateRegion (ToCacheAddr dst_ptr)
              (word_of_nat (unat (size_x (dst_params regs)) *
                            unat (size_y (dst_params regs)))),
            SwizzleSubrect (x_count regs) (y_count regs) (src_pitch regs)
              (size_x (dst_params regs)) 1 dst_ptr source_ptr
              (BlockHeight (dst_params regs))],
           Returned) \<and>
        unat (word_of_nat (unat (size_x (dst_params regs)) *
                           unat (size_y (dst_params regs))) :: u64) =
          unat (size_x (dst_params regs)) * unat (size_y (dst_params regs)))"
proof (intro conjI impI)
  show "list_all (\<lambda>e. swizzle_bpp e = None \<or> swizzle_bpp e = Some 1)
       (fst (HandleCopy mm regs))"
    by (rule swizzle_always_bpp_one)
next
  assume "src_pitch regs \<noteq> x_count regs"
  then show "HandleCopy mm regs =
      ([LOG_WARNING ''Requested a DMA copy'', OnMemoryWrite], Aborted AssertionFailed)"
    by (simp add: HandleCopy_swizzle_run [OF assms])
next
  assume "src_pitch regs = x_count regs"
  with assms(8) show "src_pitch regs div x_count regs = 1"
    by (simp add: div_word_self)
next
  assume "src_pitch regs = x_count regs"
  then show "snd (HandleCopy mm regs) = Returned"
    by (simp add: HandleCopy_swizzle_run [OF assms])
next
  assume "src_pitch regs = x_count regs"
  then show "filter is_transform (fst (HandleCopy mm regs)) =
          [SwizzleSubrect (x_count regs) (y_count regs) (src_pitch regs)
             (size_x (dst_params regs)) 1 dst_ptr source_ptr
             (BlockHeight (dst_params regs))]"
    by (simp add: HandleCopy_swizzle_run [OF assms])
next
  assume a: "src_pitch regs = x_count regs \<and>
      unat (size_x (dst_params regs)) * unat (size_y (dst_params regs)) < 2 ^ 32"
  then have "(ucast (size_x (dst_params regs) * size_y (dst_params regs)) :: u64) =
      word_of_nat (unat (size_x (dst_params regs)) * unat (size_y (dst_params regs)))"
    by (intro ucast_product_exact) simp
  with a show "HandleCopy mm regs =
          ([LOG_WARNING ''Requested a DMA copy'', OnMemoryWrite,
            FlushRegion (ToCacheAddr source_ptr) (ucast (src_pitch regs * y_count regs)),
            InvalidateRegion (ToCacheAddr dst_ptr)
              (word_of_nat (unat (size_x (dst_params regs)) *
                            unat (size_y (dst_params regs)))),
            SwizzleSubrect (x_count regs) (y_count regs) (src_pitch regs)
              (size_x (dst_params regs)) 1 dst_ptr source_ptr
              (BlockHeight (dst_params regs))],
           Returned)"
    by (simp add: HandleCopy_swizzle_run [OF assms])
next
  assume "src_pitch regs = x_count regs \<and>
      unat (size_x (dst_params regs)) * unat (size_y (dst_params regs)) < 2 ^ 32"
  then have "unat (size_x (dst_params regs)) * unat (size_y (dst_params regs)) < 2 ^ 64"
    by simp
  then show "unat (word_of_nat (unat (size_x (dst_params regs)) *
                           unat (size_y (dst_params regs))) :: u64) =
          unat (size_x (dst_params regs)) * unat (size_y (dst_params regs))"
    by (rule unat_word_of_nat_u64)
qed

theorem HandleCopy_swizzle_bpp_one_witness:
  "head_assertions_hold swizzle_request \<and>
   is_src_linear (exec swizzle_request) \<noteq> 0 \<and>
   is_dst_linear (exec swizzle_request) = 0 \<and>
   enable_2d (exec swizzle_request) = 1 \<and>
   GetPointer mapped (Address (src_address swizzle_request)) = Some 0x7F0000001000 \<and>
   GetPointer mapped (Address (dst_address swizzle_request)) = Some 0x7F0000002000 \<and>
   size_z (dst_params swizzle_request) = 1 \<and>
   x_count swizzle_request \<noteq> 0 \<and>
   src_pitch swizzle_request = x_count swizzle_request \<and>
   unat (size_x (dst_params swizzle_request)) * unat (size_y (dst_params swizzle_request))
     < 2 ^ 32 \<and>
   src_pitch swizzle_request div x_count swizzle_request = 1 \<and>
   HandleCopy mapped swizzle_request =
     ([LOG_WARNING ''Requested a DMA copy'', OnMemoryWrite,
       FlushRegion 0x7F0000001000 0x4000,
       InvalidateRegion 0x7F0000002000 0x4000,
       SwizzleSubrect 128 128 128 128 1 0x7F0000002000 0x7F0000001000 16],
      Returned) \<and>
   src_pitch (swizzle_request\<lparr>src_pitch := 256\<rparr>) \<noteq> x_count (swizzle_request\<lparr>src_pitch := 256\<rparr>) \<and>
   HandleCopy mapped (swizzle_request\<lparr>src_pitch := 256\<rparr>) =
     ([LOG_WARNING ''Requested a DMA copy'', OnMemoryWrite], Aborted AssertionFailed)"
proof -
  let ?r = "swizzle_request\<lparr>src_pitch := 256\<rparr>"
  have h: "head_assertions_hold swizzle_request"
    by (simp add: head_assertions_hold_def example_defs)
  have s: "is_src_linear (exec swizzle_request) \<noteq> 0"
    and d: "is_dst_linear (exec swizzle_request) = 0"
    and e: "enable_2d (exec swizzle_request) = 1"
    and z: "size_z (dst_params swizzle_request) = 1"
    and x: "x_count swizzle_request \<noteq> 0"
    and p: "src_pitch swizzle_request = x_count swizzle_request"
    and n: "unat (size_x (dst_params swizzle_request)) *
        unat (size_y (dst_params swizzle_request)) < 2 ^ 32"
    by (simp_all add: example_defs)
  have sp: "GetPointer mapped (Address (src_address swizzle_request)) = Some 0x7F0000001000"
    and dp: "GetPointer mapped (Address (dst_address swizzle_request)) = Some 0x7F0000002000"
    by (simp_all add: example_defs Address_def)
  have h': "head_assertions_hold ?r"
    by (simp add: head_assertions_hold_def example_defs)
  have s': "is_src_linear (exec ?r) \<noteq> 0"
    and d': "is_dst_linear (exec ?r) = 0"
    and e': "enable_2d (exec ?r) = 1"
    and z': "size_z (dst_params ?r) = 1"
    and x': "x_count ?r \<noteq> 0"
    and p': "src_pitch ?r \<noteq> x_count ?r"
    by (simp_all add: example_defs)
  have sp': "GetPointer mapped (Address (src_address ?r)) = Some 0x7F0000001000"
    and dp': "GetPointer mapped (Address (dst_address ?r)) = Some 0x7F0000002000"
    by (simp_all add: example_defs Address_def)
  note inst = HandleCopy_swizzle_bpp_one [OF h s d e sp dp z x]
  note inst' = HandleCopy_swizzle_bpp_one [OF h' s' d' e' sp' dp' z' x']
  from inst p have one: "src_pitch swizzle_request div x_count swizzle_request = 1"
    by blast
  from inst p n have "HandleCopy mapped swizzle_request =
     ([LOG_WARNING ''Requested a DMA copy'', OnMemoryWrite,
       FlushRegion (ToCacheAddr 0x7F0000001000)
         (ucast (src_pitch swizzle_request * y_count swizzle_request)),
       InvalidateRegion (ToCacheAddr 0x7F0000002000)
         (word_of_nat (unat (size_x (dst_params swizzle_request)) *
                       unat (size_y (dst_params swizzle_request)))),
       SwizzleSubrect (x_count swizzle_request) (y_count swizzle_request)
         (src_pitch swizzle_request) (size_x (dst_params swizzle_request)) 1
         0x7F0000002000 0x7F0000001000 (BlockHeight (dst_params swizzle_request))],
      Returned)"
    by blast
  then have run: "HandleCopy mapped swizzle_request =
     ([LOG_WARNING ''Requested a DMA copy'', OnMemoryWrite,
       FlushRegion 0x7F0000001000 0x4000,
       InvalidateRegion 0x7F0000002000 0x4000,
       SwizzleSubrect 128 128 128 128 1 0x7F0000002000 0x7F0000001000 16],
      Returned)"
    by (simp add: example_defs ToCacheAddr_def BlockHeight_def)
  from inst' p' have run': "HandleCopy mapped ?r =
     ([LOG_WARNING ''Requested a DMA copy'', OnMemoryWrite], Aborted AssertionFailed)"
    by blast
  from h s d e sp dp z x p n one run p' run' show ?thesis by blast
qed

subsection \<open>Tiled to tiled\<close>

text \<open>
  A request with neither side linear never gets past the tiled to tiled check: the run is
  the log line and an abort, by \<open>UNREACHABLE_MSG\<close> when the head assertions hold.
\<close>

lemma HandleCopy_tiled_to_tiled_run:
  assumes "is_dst_linear (exec regs) = 0" and "is_src_linear (exec regs) = 0"
  shows "HandleCopy mm regs =
     ([LOG_WARNING ''Requested a DMA copy''],
      Aborted (if head_assertions_hold regs
               then Unreachable ''Tiled->Tiled DMA transfers are not yet implemented''
               else AssertionFailed))"
  using assms by (simp add: HandleCopy_def head_assertions_hold_def run_defs Let_def)

text \<open>
  Claim C6. For a request that has passed the head assertions and in which neither the
  source nor the destination is linear, \<open>HandleCopy\<close> reports the
  unimplemented-configuration failure (\<open>UNREACHABLE_MSG\<close>) and stops: no bytes are
  moved, no cache action is taken and \<open>OnMemoryWrite\<close> is not notified.
\<close>

theorem HandleCopy_tiled_to_tiled:
  assumes "head_assertions_hold regs"
    and "is_dst_linear (exec regs) = 0" and "is_src_linear (exec regs) = 0"
  shows "HandleCopy mm regs =
     ([LOG_WARNING ''Requested a DMA copy''],
      Aborted (Unreachable ''Tiled->Tiled DMA transfers are not yet implemented'')) \<and>
     filter moves_bytes (fst (HandleCopy mm regs)) = [] \<and>
     filter is_cache_action (fst (HandleCopy mm regs)) = [] \<and>
     count_list (fst (HandleCopy mm regs)) OnMemoryWrite = 0"
  using assms by (simp add: HandleCopy_tiled_to_tiled_run)

theorem HandleCopy_tiled_to_tiled_witness:
  "head_assertions_hold tiled_request \<and>
   is_dst_linear (exec tiled_request) = 0 \<and>
   is_src_linear (exec tiled_request) = 0 \<and>
   HandleCopy mapped tiled_request =
     ([LOG_WARNING ''Requested a DMA copy''],
      Aborted (Unreachable ''Tiled->Tiled DMA transfers are not yet implemented''))"
proof -
  have d: "is_dst_linear (exec tiled_request) = 0"
    and s: "is_src_linear (exec tiled_request) = 0"
    by (simp_all add: example_defs)
  have h: "head_assertions_hold tiled_request"
    by (simp add: head_assertions_hold_def example_defs)
  from h d s conjunct1 [OF HandleCopy_tiled_to_tiled [OF h d s, of mapped]]
  show ?thesis by blast
qed

subsection \<open>Register writes\<close>

text \<open>
  A run of a single call is that call, and writes to registers other than \<open>exec\<close> only
  store their values.
\<close>

lemma CallMethods_single:
  "CallMethods layout mm reg_array [mc] = CallMethod layout mm reg_array mc"
proof -
  obtain ra t out where r: "CallMethod layout mm reg_array mc = (ra, t, out)"
    by (cases "CallMethod layout mm reg_array mc") auto
  then show ?thesis
    by (cases out) (simp_all add: emits_def return_def)
qed

lemma CallMethods_plain_writes:
  assumes "\<forall>mc \<in> set ws. unat (method' mc) < NUM_REGS layout \<and>
             unat (method' mc) \<noteq> exec_index layout"
  shows "CallMethods layout mm reg_array (ws @ rest) =
     CallMethods layout mm
       (fold store ws reg_array) rest"
  using assms
proof (induction ws arbitrary: reg_array)
  case Nil
  then show ?case by simp
next
  case (Cons w ws)
  then have "CallMethod layout mm reg_array w =
      (store w reg_array, [], Returned)"
    by (simp add: CallMethod_def return_def store_def)
  moreover have "emits [] k = k" for k
    by (simp add: emits_def)
  ultimately show ?case
    using Cons by (simp split: prod.splits)
qed

text \<open>
  Claim C9. A register write with an index below \<open>NUM_REGS\<close> stores the value at that
  index, leaves every other register as it was, and only then, when the index is that of
  \<open>exec\<close>, runs \<open>HandleCopy\<close> on the fields of the updated array: the copy sees the value
  just written and the values stored before. A write with an index of \<open>NUM_REGS\<close> or more
  fails the assertion of \<open>CallMethod\<close>: the call is aborted, nothing is stored and no
  copy runs. The stored values are sticky: after any sequence of writes to registers
  other than \<open>exec\<close>, a write to \<open>exec\<close> runs the copy on exactly what these writes and
  the \<open>exec\<close> write itself have left in the array.
\<close>

theorem CallMethod_store_then_copy:
  "(unat (method' mc) < NUM_REGS layout \<longrightarrow>
      fst (CallMethod layout mm reg_array mc) =
        reg_array (unat (method' mc) := argument mc) \<and>
      snd (CallMethod layout mm reg_array mc) =
        (if unat (method' mc) = exec_index layout
         then HandleCopy mm (view layout (reg_array (unat (method' mc) := argument mc)))
         else return)) \<and>
   (\<not> unat (method' mc) < NUM_REGS layout \<longrightarrow>
      CallMethod layout mm reg_array mc =
        (reg_array, [], Aborted (AssertionFailedMsg
           ''Invalid MaxwellDMA register, increase the size of the Regs structure''))) \<and>
   ((\<forall>w \<in> set ws. unat (method' w) < NUM_REGS layout \<and>
        unat (method' w) \<noteq> exec_index layout) \<and>
    unat (method' mc) = exec_index layout \<and> exec_index layout < NUM_REGS layout \<longrightarrow>
      CallMethods layout mm reg_array (ws @ [mc]) =
        (fold store (ws @ [mc]) reg_array,
         HandleCopy mm (view layout
           (fold store (ws @ [mc]) reg_array))))"
proof (intro conjI impI)
  assume "unat (method' mc) < NUM_REGS layout"
  then show "fst (CallMethod layout mm reg_array mc) =
      reg_array (unat (method' mc) := argument mc)"
    by (simp add: CallMethod_def Let_def)
next
  assume "unat (method' mc) < NUM_REGS layout"
  then show "snd (CallMethod layout mm reg_array mc) =
        (if unat (method' mc) = exec_index layout
         then HandleCopy mm (view layout (reg_array (unat (method' mc) := argument mc)))
         else return)"
    by (simp add: CallMethod_def Let_def)
next
  assume "\<not> unat (method' mc) < NUM_REGS layout"
  then show "CallMethod layout mm reg_array mc =
        (reg_array, [], Aborted (AssertionFailedMsg
           ''Invalid MaxwellDMA register, increase the size of the Regs structure''))"
    by (simp add: CallMethod_def)
next
  assume a: "(\<forall>w \<in> set ws. unat (method' w) < NUM_REGS layout \<and>
        unat (method' w) \<noteq> exec_index layout) \<and>
    unat (method' mc) = exec_index layout \<and> exec_index layout < NUM_REGS layout"
  let ?stored = "fold store ws reg_array"
  from a have "CallMethods layout mm reg_array (ws @ [mc]) =
      CallMethods layout mm ?stored [mc]"
    by (simp add: CallMethods_plain_writes)
  also have "\<dots> = CallMethod layout mm ?stored mc"
    by (rule CallMethods_single)
  also from a have "\<dots> =
      (store mc ?stored, HandleCopy mm (view layout (store mc ?stored)))"
    by (simp add: CallMethod_def Let_def store_def)
  finally show "CallMethods layout mm reg_array (ws @ [mc]) =
        (fold store (ws @ [mc]) reg_array,
         HandleCopy mm (view layout
           (fold store (ws @ [mc]) reg_array)))"
    by simp
qed

theorem CallMethod_store_then_copy_witness:
  "unat (method' \<lparr>method' = 0x106, argument = 64\<rparr>) < NUM_REGS Regs_layout \<and>
   CallMethod Regs_layout mapped deswizzle_regs \<lparr>method' = 0x106, argument = 64\<rparr> =
     (deswizzle_regs (0x106 := 64), [], Returned) \<and>
   \<not> unat (method' \<lparr>method' = 0x1D6, argument = 1\<rparr>) < NUM_REGS Regs_layout \<and>
   CallMethod Regs_layout mapped deswizzle_regs \<lparr>method' = 0x1D6, argument = 1\<rparr> =
     (deswizzle_regs, [], Aborted (AssertionFailedMsg
        ''Invalid MaxwellDMA register, increase the size of the Regs structure'')) \<and>
   list_all (\<lambda>w. unat (method' w) < NUM_REGS Regs_layout \<and>
                  unat (method' w) \<noteq> exec_index Regs_layout) deswizzle_writes \<and>
   unat (method' \<lparr>method' = 0xC0, argument = 0x302\<rparr>) = exec_index Regs_layout \<and>
   exec_index Regs_layout < NUM_REGS Regs_layout \<and>
   CallMethods Regs_layout mapped zero_regs
       (deswizzle_writes @ [\<lparr>method' = 0xC0, argument = 0x302\<rparr>]) =
     (deswizzle_regs (0xC0 := 0x302),
      [LOG_WARNING ''Requested a DMA copy'', OnMemoryWrite,
       FlushRegion 0x7F0000001000 0x10000,
       InvalidateRegion 0x7F0000002000 0x10000,
       UnswizzleSubrect 128 128 512 128 4 0x7F0000001000 0x7F0000002000 16 0 0],
      Returned)"
proof -
  let ?exec = "\<lparr>method' = 0xC0, argument = 0x302\<rparr>"
  let ?count = "\<lparr>method' = 0x106, argument = 64\<rparr>"
  let ?bad = "\<lparr>method' = 0x1D6, argument = 1\<rparr>"
  have b: "unat (method' ?count) < NUM_REGS Regs_layout"
    and c: "\<not> unat (method' ?bad) < NUM_REGS Regs_layout"
    and e: "unat (method' ?exec) = exec_index Regs_layout"
    and n: "exec_index Regs_layout < NUM_REGS Regs_layout"
    by (simp_all add: Regs_layout_def)
  have ws: "list_all (\<lambda>w. unat (method' w) < NUM_REGS Regs_layout \<and>
                  unat (method' w) \<noteq> exec_index Regs_layout) deswizzle_writes"
    by (simp add: deswizzle_writes_def Regs_layout_def)
  note ib = CallMethod_store_then_copy [of ?count Regs_layout mapped deswizzle_regs]
  note ic = CallMethod_store_then_copy [of ?bad Regs_layout mapped deswizzle_regs]
  note ia = CallMethod_store_then_copy [where mc = ?exec and layout = Regs_layout
      and ws = deswizzle_writes and mm = mapped and reg_array = zero_regs]
  from ib b have b1: "CallMethod Regs_layout mapped deswizzle_regs ?count =
     (deswizzle_regs (0x106 := 64), [], Returned)"
    by (simp add: prod_eq_iff Regs_layout_def return_def)
  from ic c have c1: "CallMethod Regs_layout mapped deswizzle_regs ?bad =
     (deswizzle_regs, [], Aborted (AssertionFailedMsg
        ''Invalid MaxwellDMA register, increase the size of the Regs structure''))"
    by blast
  have stored: "fold store
      (deswizzle_writes @ [?exec]) zero_regs = deswizzle_regs (0xC0 := 0x302)"
    by (simp add: deswizzle_writes_def deswizzle_regs_def store_def)
  have copy: "HandleCopy mapped (view_Regs (deswizzle_regs (0xC0 := 0x302))) =
     ([LOG_WARNING ''Requested a DMA copy'', OnMemoryWrite,
       FlushRegion 0x7F0000001000 0x10000,
       InvalidateRegion 0x7F0000002000 0x10000,
       UnswizzleSubrect 128 128 512 128 4 0x7F0000001000 0x7F0000002000 16 0 0],
      Returned)"
    by (simp add: HandleCopy_def run_defs layout_defs deswizzle_regs_def example_defs
        Address_def ToCacheAddr_def BlockHeight_def)
  have v: "view Regs_layout = view_Regs"
    by (simp add: Regs_layout_def)
  from ia ws e n have "CallMethods Regs_layout mapped zero_regs (deswizzle_writes @ [?exec]) =
      (fold store (deswizzle_writes @ [?exec]) zero_regs,
       HandleCopy mapped (view Regs_layout
         (fold store (deswizzle_writes @ [?exec]) zero_regs)))"
    by (simp only: list_all_iff)
  then have a1: "CallMethods Regs_layout mapped zero_regs (deswizzle_writes @ [?exec]) =
     (deswizzle_regs (0xC0 := 0x302),
      [LOG_WARNING ''Requested a DMA copy'', OnMemoryWrite,
       FlushRegion 0x7F0000001000 0x10000,
       InvalidateRegion 0x7F0000002000 0x10000,
       UnswizzleSubrect 128 128 512 128 4 0x7F0000001000 0x7F0000002000 16 0 0],
      Returned)"
    by (simp only: stored v copy)
  from b b1 c c1 ws e n a1 show ?thesis by blast
qed

end
